theory Spec2Isabelle
  imports Complex_Main "HOL-Library.Multiset" "HOL-Library.Product_Lexorder"
    "HOL-Library.Log_Nat"
begin

section \<open>Configuration constants (config/constants.js)\<close>

definition IMPORTANCE_MUST :: int where "IMPORTANCE_MUST = 1"
definition IMPORTANCE_HIGH :: int where "IMPORTANCE_HIGH = 2"
definition IMPORTANCE_MEDIUM :: int where "IMPORTANCE_MEDIUM = 3"
definition IMPORTANCE_OPTIONAL :: int where "IMPORTANCE_OPTIONAL = 4"

definition RP_LIMITS_SAFE :: real where "RP_LIMITS_SAFE = 0.8"
definition RP_LIMITS_RISKY :: real where "RP_LIMITS_RISKY = 1.0"
definition RP_LIMITS_OVERLOAD :: real where "RP_LIMITS_OVERLOAD = 1.0"

definition OBSERVATION_BUFFER_DAYS :: int where "OBSERVATION_BUFFER_DAYS = 2"

section \<open>Task repository (PlanningContext)\<close>

text \<open>
  A task object. A JavaScript number is modelled by the real or the integer it stands
  for: \<open>rt\<close> (hours) is a real, \<open>il\<close> an integer, and every Date is its time value, an
  integer number of milliseconds since the epoch. NaN, the infinities and Invalid Date
  are outside these types.
  \<open>addTask\<close> builds objects with the first six properties only; \<open>parentTaskId\<close> and
  \<open>linksTo\<close> can reach a task through the \<open>...updates\<close> spread of \<open>updateTask\<close>
  (the DailyPlan page passes \<open>parentTaskId\<close> there). An absent \<open>parentTaskId\<close> is
  \<open>None\<close>, an absent \<open>linksTo\<close> is the empty list.
\<close>

record task =
  task_id :: int
  title :: string
  rt :: real
  idl :: int
  il :: int
  createdAt :: int
  parentTaskId :: "int option"
  linksTo :: "int list"

text \<open>
  The argument object of \<open>addTask\<close>, as the pages build it: they pass parsed values, a
  number for \<open>rt\<close>, a Date for \<open>idl\<close> (here its time value) and an integer for \<open>il\<close>.
\<close>

record task_input =
  in_title :: string
  in_rt :: real
  in_idl :: int
  in_il :: int
  in_parentTaskId :: "int option"

text \<open>
  The \<open>updates\<close> object of \<open>updateTask\<close>: every property is optional, and \<open>None\<close> says
  that the object has no such property. For \<open>rt\<close>, \<open>idl\<close> and \<open>il\<close> the code tests the
  value against \<open>undefined\<close>, so that a property holding \<open>undefined\<close> counts as absent as
  well; for the other properties, which the spread copies, a property holding \<open>undefined\<close>
  is not represented. \<open>u_parentTaskId = Some None\<close> is the value \<open>null\<close>.
\<close>

record task_updates =
  u_id :: "int option"
  u_title :: "string option"
  u_rt :: "real option"
  u_idl :: "int option"
  u_il :: "int option"
  u_createdAt :: "int option"
  u_parentTaskId :: "int option option"
  u_linksTo :: "int list option"

text \<open>
  The engine's conversions, applied by \<open>addTask\<close> and \<open>updateTask\<close> to the numbers and
  Dates that the pages pass.

  \<open>parseFloat\<close> prints its argument and reads the string back. The string of a number
  reads back as the same number, so on numbers it is the identity.

  \<open>parseInt\<close> prints its argument and reads the leading integer of the string. An
  integer of magnitude below \<open>10^21\<close> prints as its decimal numeral and is read back as
  itself. From \<open>10^21\<close> on the string is in exponent notation and only the digits in
  front of the point or the exponent are read (\<open>parseInt(1e21)\<close> is 1): which digits
  depends on how the engine prints the double, and the result is left unspecified.

  \<open>new Date(v)\<close> of a Date or a time value keeps the time value when its magnitude is
  at most \<open>8.64e15\<close> milliseconds, the range of Date. Beyond it the result is an Invalid
  Date, which is no value of the model: the result is left unspecified.
\<close>

definition parseFloat_number :: "real \<Rightarrow> real" where
  "parseFloat_number x = x"

definition parseInt_number :: "int \<Rightarrow> int" where
  "parseInt_number n = (if \<bar>n\<bar> < 1000000000000000000000 then n else undefined)"

definition newDate_value :: "int \<Rightarrow> int" where
  "newDate_value v = (if \<bar>v\<bar> \<le> 8640000000000000 then v else undefined)"

text \<open>
  \<open>addTask\<close>: \<open>dateNow\<close> is the value of \<open>Date.now()\<close> and \<open>newDate\<close> the value of
  \<open>new Date()\<close> at the call. The function has no failing branch: it returns the new
  task, and the repository with the task appended.
\<close>

definition addTask :: "int \<Rightarrow> int \<Rightarrow> task_input \<Rightarrow> task list \<Rightarrow> task \<times> task list" where
  "addTask dateNow newDate t prev =
     (let newTask = \<lparr> task_id = dateNow, title = in_title t,
                       rt = parseFloat_number (in_rt t),
                       idl = newDate_value (in_idl t),
                       il = parseInt_number (in_il t),
                       createdAt = newDate,
                       parentTaskId = None, linksTo = [] \<rparr>
      in (newTask, prev @ [newTask]))"

text \<open>The object \<open>{...task, ...updates, rt: ..., idl: ..., il: ...}\<close>.\<close>

definition mergeUpdates :: "task \<Rightarrow> task_updates \<Rightarrow> task" where
  "mergeUpdates t u =
     \<lparr> task_id = (case u_id u of Some v \<Rightarrow> v | None \<Rightarrow> task_id t),
       title = (case u_title u of Some v \<Rightarrow> v | None \<Rightarrow> title t),
       rt = (case u_rt u of Some v \<Rightarrow> parseFloat_number v | None \<Rightarrow> rt t),
       idl = (case u_idl u of Some v \<Rightarrow> newDate_value v | None \<Rightarrow> idl t),
       il = (case u_il u of Some v \<Rightarrow> parseInt_number v | None \<Rightarrow> il t),
       createdAt = (case u_createdAt u of Some v \<Rightarrow> v | None \<Rightarrow> createdAt t),
       parentTaskId = (case u_parentTaskId u of Some v \<Rightarrow> v | None \<Rightarrow> parentTaskId t),
       linksTo = (case u_linksTo u of Some v \<Rightarrow> v | None \<Rightarrow> linksTo t) \<rparr>"

definition updateTask :: "int \<Rightarrow> task_updates \<Rightarrow> task list \<Rightarrow> task list" where
  "updateTask taskId updates prev =
     map (\<lambda>t. if task_id t = taskId then mergeUpdates t updates else t) prev"

definition deleteTask :: "int \<Rightarrow> task list \<Rightarrow> task list" where
  "deleteTask taskId prev = filter (\<lambda>t. task_id t \<noteq> taskId) prev"

definition catastrophicWipeOut :: "task list \<Rightarrow> task list" where
  "catastrophicWipeOut prev = filter (\<lambda>t. il t = IMPORTANCE_MUST) prev"

text \<open>A task with the given id, required time, deadline and importance level, for examples.\<close>

definition mkTask :: "int \<Rightarrow> real \<Rightarrow> int \<Rightarrow> int \<Rightarrow> task" where
  "mkTask i r d l = \<lparr> task_id = i, title = ''task'', rt = r, idl = d, il = l,
                      createdAt = 0, parentTaskId = None, linksTo = [] \<rparr>"

definition noUpdates :: task_updates where
  "noUpdates = \<lparr> u_id = None, u_title = None, u_rt = None, u_idl = None, u_il = None,
                 u_createdAt = None, u_parentTaskId = None, u_linksTo = None \<rparr>"

section \<open>Dashboard: tasks of a day, realism point, status, display order\<close>

definition msPerDay :: int where "msPerDay = 86400000"

text \<open>
  \<open>getTasksForDate\<close>. The two Date methods it calls are the engine's, and their
  results depend on the time zone of the environment; they are parameters, functions on
  time values: \<open>setHoursZero\<close> is \<open>setHours(0, 0, 0, 0)\<close>, the local midnight that starts
  the local day of its argument, and \<open>setDateNext\<close> is \<open>setDate(getDate() + 1)\<close>, which
  on a local midnight gives the next local midnight (23 or 25 hours later where daylight
  saving changes the clock in between).
\<close>

definition getTasksForDate ::
  "(int \<Rightarrow> int) \<Rightarrow> (int \<Rightarrow> int) \<Rightarrow> task list \<Rightarrow> int \<Rightarrow> task list" where
  "getTasksForDate setHoursZero setDateNext tasks date =
     (let targetDate = setHoursZero date;
          nextDay = setDateNext targetDate
      in filter (\<lambda>t. idl t \<ge> targetDate \<and> idl t < nextDay) tasks)"

text \<open>\<open>getTodayTasks\<close>: \<open>now\<close> is the value of \<open>new Date()\<close> at the call.\<close>

definition getTodayTasks ::
  "(int \<Rightarrow> int) \<Rightarrow> (int \<Rightarrow> int) \<Rightarrow> task list \<Rightarrow> int \<Rightarrow> task list" where
  "getTodayTasks setHoursZero setDateNext tasks now =
     getTasksForDate setHoursZero setDateNext tasks now"

text \<open>
  The two methods in a time zone whose offset from UTC never changes: \<open>tz\<close> is the
  offset of local time in milliseconds.
\<close>

definition fixedOffsetMidnight :: "int \<Rightarrow> int \<Rightarrow> int" where
  "fixedOffsetMidnight tz t = t - (t + tz) mod msPerDay"

definition fixedOffsetNextDay :: "int \<Rightarrow> int" where
  "fixedOffsetNextDay t = t + msPerDay"

text \<open>
  The memo \<open>realismPoint\<close> of the Dashboard; \<open>reduce\<close> is a left fold from 0. The
  numbers are doubles: an addition or a division gives the exact result rounded to a
  double, and \<open>rnd\<close> is that rounding.
\<close>

definition realismPoint :: "(real \<Rightarrow> real) \<Rightarrow> task list \<Rightarrow> real \<Rightarrow> real" where
  "realismPoint rnd todayTasks availableTime =
     (let totalRT = foldl (\<lambda>sum t. rnd (sum + rt t)) 0 todayTasks
      in if availableTime > 0 then rnd (totalRT / availableTime) else 0)"

text \<open>
  The rounding of IEEE 754 double precision, to the nearest double with ties to the even
  significand: a double is an integer of at most 53 bits times a power of two that is at
  least \<open>2^-1074\<close>. A result of magnitude \<open>2^1024\<close> or more (binary exponent 1024 or
  more) is an infinity, which is no value of the model, and is left unspecified.
\<close>

definition pow2 :: "int \<Rightarrow> real" where
  "pow2 e = (if e \<ge> 0 then 2 ^ nat e else 1 / 2 ^ nat (- e))"

definition roundHalfEven :: "real \<Rightarrow> int" where
  "roundHalfEven x =
     (let f = \<lfloor>x\<rfloor>; d = x - of_int f
      in if d < 1 / 2 then f else if d > 1 / 2 then f + 1 else if even f then f else f + 1)"

text \<open>The exponent of the power of two at or below the magnitude of a number other than 0.\<close>

definition binaryExponent :: "real \<Rightarrow> int" where
  "binaryExponent x =
     (if \<bar>x\<bar> \<ge> 1 then bitlen \<lfloor>\<bar>x\<bar>\<rfloor> - 1 else - bitlen (\<lceil>1 / \<bar>x\<bar>\<rceil> - 1))"

definition roundDouble :: "real \<Rightarrow> real" where
  "roundDouble x =
     (if x = 0 then 0
      else let e = max (binaryExponent x - 52) (- 1074);
               r = of_int (roundHalfEven (x / pow2 e)) * pow2 e
           in if binaryExponent r < 1024 then r else undefined)"

text \<open>
  No addition of the fold rounds: starting from the accumulator \<open>a\<close>, every partial sum
  is a double already.
\<close>

fun exactSums :: "(real \<Rightarrow> real) \<Rightarrow> real \<Rightarrow> real list \<Rightarrow> bool" where
  "exactSums rnd a [] = True"
| "exactSums rnd a (r # rs) = (rnd (a + r) = a + r \<and> exactSums rnd (a + r) rs)"

text \<open>Ten tasks of a tenth of an hour each (the double nearest to 0.1), for examples.\<close>

definition tenTenths :: "task list" where
  "tenTenths =
     [mkTask 1 (roundDouble (1 / 10)) 0 3, mkTask 2 (roundDouble (1 / 10)) 0 3,
      mkTask 3 (roundDouble (1 / 10)) 0 3, mkTask 4 (roundDouble (1 / 10)) 0 3,
      mkTask 5 (roundDouble (1 / 10)) 0 3, mkTask 6 (roundDouble (1 / 10)) 0 3,
      mkTask 7 (roundDouble (1 / 10)) 0 3, mkTask 8 (roundDouble (1 / 10)) 0 3,
      mkTask 9 (roundDouble (1 / 10)) 0 3, mkTask 10 (roundDouble (1 / 10)) 0 3]"

text \<open>
  The status object of \<open>getRPStatus\<close> (its emoji property, a character outside ASCII, is
  left out); \<open>realismPoint\<close>, a variable of the enclosing component, is the argument.
\<close>

record rp_status =
  label :: string
  textColor :: string
  bgColor :: string
  borderColor :: string
  statusTextColor :: string
  messageColor :: string

definition getRPStatus :: "real \<Rightarrow> rp_status" where
  "getRPStatus rp =
     (if rp < RP_LIMITS_SAFE then
        \<lparr> label = ''Safe Zone'', textColor = ''text-green-600'', bgColor = ''bg-green-50'',
          borderColor = ''border-green-200'', statusTextColor = ''text-green-800'',
          messageColor = ''text-green-700'' \<rparr>
      else if rp < RP_LIMITS_RISKY then
        \<lparr> label = ''Risky Zone'', textColor = ''text-yellow-600'', bgColor = ''bg-yellow-50'',
          borderColor = ''border-yellow-200'', statusTextColor = ''text-yellow-800'',
          messageColor = ''text-yellow-700'' \<rparr>
      else
        \<lparr> label = ''Overload'', textColor = ''text-red-600'', bgColor = ''bg-red-50'',
          borderColor = ''border-red-200'', statusTextColor = ''text-red-800'',
          messageColor = ''text-red-700'' \<rparr>)"

text \<open>The comparator of \<open>sortedTasks\<close>: IL ascending, then IDL ascending.\<close>

definition compareTasks :: "task \<Rightarrow> task \<Rightarrow> int" where
  "compareTasks a b = (if il a \<noteq> il b then il a - il b else idl a - idl b)"

text \<open>
  \<open>Array.prototype.sort\<close> belongs to the JavaScript engine, not to the repository.
  ECMAScript (from the 2019 edition) requires it to be stable, and with a consistent
  comparator its result is the one stable ordering of the array. It is modelled here by
  insertion sort: an element goes in front of the first element that it does not exceed
  (comparator result at most 0), so elements that compare equal keep their order.
\<close>

fun insertSorted :: "('a \<Rightarrow> 'a \<Rightarrow> int) \<Rightarrow> 'a \<Rightarrow> 'a list \<Rightarrow> 'a list" where
  "insertSorted cmp x [] = [x]"
| "insertSorted cmp x (y # ys) =
     (if cmp x y \<le> 0 then x # y # ys else y # insertSorted cmp x ys)"

definition arraySort :: "('a \<Rightarrow> 'a \<Rightarrow> int) \<Rightarrow> 'a list \<Rightarrow> 'a list" where
  "arraySort cmp xs = foldr (insertSorted cmp) xs []"

definition sortedTasks :: "task list \<Rightarrow> task list" where
  "sortedTasks todayTasks = arraySort compareTasks todayTasks"

section \<open>Observations\<close>

datatype obs_status = InBuffer | ReadyForAnalysis | Analyzed

record observation =
  obs_id :: int
  content :: string
  obs_createdAt :: int
  status :: obs_status
  tags :: "string list"
  lessonIdentified :: "string option"
  ep :: "real option"
  convertedTaskId :: "int option"

text \<open>
  Modelled from the spec: \<open>getDaysRemaining\<close> of ObservationsContext, which is not among
  the sources (only its constant \<open>OBSERVATION_BUFFER_DAYS\<close> and its caller are). The spec:
  \<open>bufferDays - floor((now - createdAt) in days)\<close>, clamped to \<open>>= 0\<close>.
\<close>

definition daysRemaining :: "observation \<Rightarrow> int \<Rightarrow> int" where
  "daysRemaining obs now =
     max 0 (OBSERVATION_BUFFER_DAYS
            - \<lfloor>real_of_int (now - obs_createdAt obs) / real_of_int msPerDay\<rfloor>)"









text \<open>An observation in its buffer, with the given id and creation time, for examples.\<close>

definition mkObs :: "int \<Rightarrow> int \<Rightarrow> observation" where
  "mkObs i c = \<lparr> obs_id = i, content = ''idea'', obs_createdAt = c, status = InBuffer,
                 tags = [], lessonIdentified = None, ep = None, convertedTaskId = None \<rparr>"

section \<open>Catastrophic wipe out\<close>

text \<open>
  C7: catastrophicWipeOut deletes exactly the tasks whose importance level is not 1 (the
  survivors are the tasks of level 1, in their order, and the deleted ones are the tasks
  of any other level), every remaining task has importance level 1, and a second call on
  the result changes nothing.
\<close>

theorem catastrophicWipeOut_must_only:
  "catastrophicWipeOut tasks = filter (\<lambda>t. il t = 1) tasks
   \<and> mset tasks = mset (catastrophicWipeOut tasks) + mset (filter (\<lambda>t. il t \<noteq> 1) tasks)
   \<and> (\<forall>t \<in> set (catastrophicWipeOut tasks). il t = 1)
   \<and> catastrophicWipeOut (catastrophicWipeOut tasks) = catastrophicWipeOut tasks"
  by (simp add: catastrophicWipeOut_def IMPORTANCE_MUST_def)

theorem catastrophicWipeOut_must_only_witness:
  "catastrophicWipeOut [mkTask 1 2 0 1, mkTask 2 1 0 3, mkTask 3 4 0 1]
     = [mkTask 1 2 0 1, mkTask 3 4 0 1]
   \<and> map il (catastrophicWipeOut [mkTask 1 2 0 1, mkTask 2 1 0 3, mkTask 3 4 0 1]) = [1, 1]
   \<and> catastrophicWipeOut (catastrophicWipeOut [mkTask 1 2 0 1, mkTask 2 1 0 3, mkTask 3 4 0 1])
     = [mkTask 1 2 0 1, mkTask 3 4 0 1]"
  using catastrophicWipeOut_must_only [of "[mkTask 1 2 0 1, mkTask 2 1 0 3, mkTask 3 4 0 1]"]
  by (simp add: mkTask_def catastrophicWipeOut_def IMPORTANCE_MUST_def)

section \<open>The engine's conversions on values in range\<close>

lemma parseFloat_number_id [simp]: "parseFloat_number x = x"
  by (simp add: parseFloat_number_def)

lemma parseInt_number_in_range [simp]:
  "\<bar>n\<bar> < 1000000000000000000000 \<Longrightarrow> parseInt_number n = n"
  by (simp add: parseInt_number_def)

lemma newDate_value_in_range [simp]:
  "\<bar>v\<bar> \<le> 8640000000000000 \<Longrightarrow> newDate_value v = v"
  by (simp add: newDate_value_def)

section \<open>Creating a task\<close>

text \<open>
  C1 (as amended): addTask performs no validation and has no failing branch. For every
  task spec, also one whose required time is negative or whose importance level is
  outside 1..4, it appends exactly one new task to the end of the repository and returns
  that task. The task carries the spec's title and required time; it carries the spec's
  deadline when that is a time value in the range of Date (magnitude at most 8.64e15 ms)
  and the spec's importance level when that is of magnitude below 10^21, the values on
  which the engine's conversions change nothing.
\<close>

theorem addTask_always_appends:
  "snd (addTask dateNow newDate t prev) = prev @ [fst (addTask dateNow newDate t prev)]
   \<and> length (snd (addTask dateNow newDate t prev)) = Suc (length prev)
   \<and> title (fst (addTask dateNow newDate t prev)) = in_title t
   \<and> rt (fst (addTask dateNow newDate t prev)) = in_rt t
   \<and> (\<bar>in_idl t\<bar> \<le> 8640000000000000
        \<longrightarrow> idl (fst (addTask dateNow newDate t prev)) = in_idl t)
   \<and> (\<bar>in_il t\<bar> < 1000000000000000000000
        \<longrightarrow> il (fst (addTask dateNow newDate t prev)) = in_il t)"
  by (simp add: addTask_def Let_def)

theorem addTask_always_appends_witness:
  "addTask 2000 2001
     \<lparr> in_title = ''y'', in_rt = -2.5, in_idl = 86400000, in_il = 0, in_parentTaskId = None \<rparr>
     [mkTask 1 2 0 1]
   = (\<lparr> task_id = 2000, title = ''y'', rt = -2.5, idl = 86400000, il = 0, createdAt = 2001,
        parentTaskId = None, linksTo = [] \<rparr>,
      [mkTask 1 2 0 1,
       \<lparr> task_id = 2000, title = ''y'', rt = -2.5, idl = 86400000, il = 0, createdAt = 2001,
         parentTaskId = None, linksTo = [] \<rparr>])"
  using addTask_always_appends [of 2000 2001
      "\<lparr> in_title = ''y'', in_rt = -2.5, in_idl = 86400000, in_il = 0, in_parentTaskId = None \<rparr>"
      "[mkTask 1 2 0 1]"]
  by (simp add: addTask_def Let_def)

text \<open>
  The claim as stated fails: a spec with required time -1 and importance level 7 is
  accepted, and the repository, empty before, holds the new task afterwards.
\<close>

theorem addTask_accepts_invalid_spec:
  "in_rt \<lparr> in_title = ''x'', in_rt = -1, in_idl = 0, in_il = 7, in_parentTaskId = None \<rparr> < 0
   \<and> in_il \<lparr> in_title = ''x'', in_rt = -1, in_idl = 0, in_il = 7, in_parentTaskId = None \<rparr>
       \<notin> {1, 2, 3, 4}
   \<and> snd (addTask 1000 1000
         \<lparr> in_title = ''x'', in_rt = -1, in_idl = 0, in_il = 7, in_parentTaskId = None \<rparr> [])
       = [\<lparr> task_id = 1000, title = ''x'', rt = -1, idl = 0, il = 7, createdAt = 1000,
            parentTaskId = None, linksTo = [] \<rparr>]"
  by (simp add: addTask_def Let_def)

section \<open>Updating a task\<close>

lemma mergeUpdates_noUpdates: "mergeUpdates t noUpdates = t"
  by (simp add: mergeUpdates_def noUpdates_def)

lemma updateTask_length: "length (updateTask taskId updates tasks) = length tasks"
  by (simp add: updateTask_def)

lemma updateTask_nth:
  "i < length tasks \<Longrightarrow>
   updateTask taskId updates tasks ! i =
     (if task_id (tasks ! i) = taskId then mergeUpdates (tasks ! i) updates else tasks ! i)"
  by (simp add: updateTask_def)

lemma updateTask_unknown_id:
  "taskId \<notin> task_id ` set tasks \<Longrightarrow> updateTask taskId updates tasks = tasks"
  unfolding updateTask_def by (induction tasks) auto

text \<open>
  C10: updateTask leaves every task whose id differs from taskId unchanged in all fields,
  keeps the number of tasks and the position of each task (the task at a position is the
  old one, or the old one merged with the updates when its id is taskId), and returns the
  repository as it was when taskId matches no task.
\<close>

theorem updateTask_frame:
  "length (updateTask taskId updates tasks) = length tasks
   \<and> (\<forall>i < length tasks. task_id (tasks ! i) \<noteq> taskId
         \<longrightarrow> updateTask taskId updates tasks ! i = tasks ! i)
   \<and> (\<forall>i < length tasks. task_id (tasks ! i) = taskId
         \<longrightarrow> updateTask taskId updates tasks ! i = mergeUpdates (tasks ! i) updates)
   \<and> filter (\<lambda>t. task_id t \<noteq> taskId) tasks
       = map snd (filter (\<lambda>(old, new). task_id old \<noteq> taskId)
                    (zip tasks (updateTask taskId updates tasks)))
   \<and> (taskId \<notin> task_id ` set tasks \<longrightarrow> updateTask taskId updates tasks = tasks)"
proof -
  have "filter (\<lambda>t. task_id t \<noteq> taskId) tasks
       = map snd (filter (\<lambda>(old, new). task_id old \<noteq> taskId)
                    (zip tasks (updateTask taskId updates tasks)))"
    unfolding updateTask_def by (induction tasks) auto
  then show ?thesis
    by (simp add: updateTask_length updateTask_nth updateTask_unknown_id)
qed

theorem updateTask_frame_witness:
  "updateTask 2 (noUpdates \<lparr> u_title := Some ''new'', u_rt := Some 5 \<rparr>)
       [mkTask 1 2 0 1, mkTask 2 1 0 3, mkTask 3 4 0 1]
     = [mkTask 1 2 0 1, (mkTask 2 1 0 3) \<lparr> title := ''new'', rt := 5 \<rparr>, mkTask 3 4 0 1]
   \<and> updateTask 7 (noUpdates \<lparr> u_title := Some ''new'', u_rt := Some 5 \<rparr>)
       [mkTask 1 2 0 1, mkTask 2 1 0 3, mkTask 3 4 0 1]
     = [mkTask 1 2 0 1, mkTask 2 1 0 3, mkTask 3 4 0 1]"
  using updateTask_frame [of 2 "noUpdates \<lparr> u_title := Some ''new'', u_rt := Some 5 \<rparr>"
      "[mkTask 1 2 0 1, mkTask 2 1 0 3, mkTask 3 4 0 1]"]
    updateTask_frame [of 7 "noUpdates \<lparr> u_title := Some ''new'', u_rt := Some 5 \<rparr>"
      "[mkTask 1 2 0 1, mkTask 2 1 0 3, mkTask 3 4 0 1]"]
  by (simp add: updateTask_def mergeUpdates_def noUpdates_def mkTask_def)

text \<open>
  C9 (as amended): addTask assigns id and createdAt at creation (from the clock), and an
  updateTask call whose updates object carries neither an id nor a createdAt property
  (as every call of the pages: title, rt, idl, il, parentTaskId) changes no task's id
  or createdAt.
\<close>

theorem updateTask_keeps_id_createdAt:
  assumes "u_id updates = None" and "u_createdAt updates = None"
  shows "map task_id (updateTask taskId updates tasks) = map task_id tasks
         \<and> map createdAt (updateTask taskId updates tasks) = map createdAt tasks
         \<and> task_id (fst (addTask dateNow newDate t prev)) = dateNow
         \<and> createdAt (fst (addTask dateNow newDate t prev)) = newDate"
  using assms by (simp add: updateTask_def mergeUpdates_def addTask_def Let_def)

theorem updateTask_keeps_id_createdAt_witness:
  "u_id (noUpdates \<lparr> u_title := Some ''new'', u_il := Some 2 \<rparr>) = None
   \<and> u_createdAt (noUpdates \<lparr> u_title := Some ''new'', u_il := Some 2 \<rparr>) = None
   \<and> map task_id (updateTask 2 (noUpdates \<lparr> u_title := Some ''new'', u_il := Some 2 \<rparr>)
        [mkTask 1 2 0 1, mkTask 2 1 0 3]) = [1, 2]
   \<and> map createdAt (updateTask 2 (noUpdates \<lparr> u_title := Some ''new'', u_il := Some 2 \<rparr>)
        [mkTask 1 2 0 1, mkTask 2 1 0 3]) = [0, 0]
   \<and> map il (updateTask 2 (noUpdates \<lparr> u_title := Some ''new'', u_il := Some 2 \<rparr>)
        [mkTask 1 2 0 1, mkTask 2 1 0 3]) = [1, 2]"
  using updateTask_keeps_id_createdAt [of "noUpdates \<lparr> u_title := Some ''new'', u_il := Some 2 \<rparr>"
      2 "[mkTask 1 2 0 1, mkTask 2 1 0 3]"]
  by (simp add: updateTask_def mergeUpdates_def noUpdates_def mkTask_def)

text \<open>
  The claim as stated fails: the spread copies an id and a createdAt property of the
  updates object over the task's own.
\<close>

theorem updateTask_overwrites_id_createdAt:
  "map task_id (updateTask 1 (noUpdates \<lparr> u_id := Some 99, u_createdAt := Some 5 \<rparr>)
      [mkTask 1 2 0 1]) = [99]
   \<and> map createdAt (updateTask 1 (noUpdates \<lparr> u_id := Some 99, u_createdAt := Some 5 \<rparr>)
      [mkTask 1 2 0 1]) = [5]
   \<and> task_id (mkTask 1 2 0 1) = 1 \<and> createdAt (mkTask 1 2 0 1) = 0"
  by (simp add: updateTask_def mergeUpdates_def noUpdates_def mkTask_def)

section \<open>Deleting a task\<close>

text \<open>
  C2 (as amended): deleteTask removes exactly the tasks whose id is the given one. Every
  other task stays in the repository, unchanged and in its place among the others, also
  the subtasks of a removed task and the tasks that link to it: there is no cascade, and
  no surviving parentTaskId or linksTo is rewritten. A second call changes nothing.
\<close>

theorem deleteTask_removes_exactly:
  "deleteTask taskId tasks = filter (\<lambda>t. task_id t \<noteq> taskId) tasks
   \<and> set (deleteTask taskId tasks) = {t \<in> set tasks. task_id t \<noteq> taskId}
   \<and> mset tasks = mset (deleteTask taskId tasks) + mset (filter (\<lambda>t. task_id t = taskId) tasks)
   \<and> taskId \<notin> task_id ` set (deleteTask taskId tasks)
   \<and> map parentTaskId (deleteTask taskId tasks)
       = map parentTaskId (filter (\<lambda>t. task_id t \<noteq> taskId) tasks)
   \<and> map linksTo (deleteTask taskId tasks)
       = map linksTo (filter (\<lambda>t. task_id t \<noteq> taskId) tasks)
   \<and> deleteTask taskId (deleteTask taskId tasks) = deleteTask taskId tasks"
  by (auto simp add: deleteTask_def)

text \<open>
  The claim as stated fails: two tasks are created, the second is made a subtask of the
  first through updateTask, and the first is deleted. The subtask survives, and its
  parentTaskId still names the deleted task.
\<close>

theorem deleteTask_leaves_subtask:
  "deleteTask 1
     (updateTask 2 (noUpdates \<lparr> u_parentTaskId := Some (Some 1) \<rparr>)
        (snd (addTask 2 2 \<lparr> in_title = ''child'', in_rt = 1, in_idl = 0, in_il = 3,
                            in_parentTaskId = Some 1 \<rparr>
           (snd (addTask 1 1 \<lparr> in_title = ''parent'', in_rt = 1, in_idl = 0, in_il = 3,
                               in_parentTaskId = None \<rparr> [])))))
   = [\<lparr> task_id = 2, title = ''child'', rt = 1, idl = 0, il = 3, createdAt = 2,
        parentTaskId = Some 1, linksTo = [] \<rparr>]"
  by (simp add: deleteTask_def updateTask_def mergeUpdates_def noUpdates_def addTask_def Let_def)

section \<open>Realism point\<close>

text \<open>
  The two parts of the rounding are what they are meant to be: the exponent brackets the
  magnitude between two powers of two, and the integer rounding is at most a half away.
\<close>

lemma pow2_nonneg_exp: "0 \<le> e \<Longrightarrow> pow2 e = 2 ^ nat e"
  by (simp add: pow2_def)

lemma pow2_neg_exp: "e \<le> 0 \<Longrightarrow> pow2 e = 1 / 2 ^ nat (- e)"
  by (auto simp add: pow2_def)

lemma bitlen_pos: "0 < n \<Longrightarrow> 1 \<le> bitlen n"
  using bitlen_eq_zero_iff [of n] bitlen_nonneg [of n] by linarith

lemma binaryExponent_bounds:
  assumes "x \<noteq> 0"
  shows "pow2 (binaryExponent x) \<le> \<bar>x\<bar> \<and> \<bar>x\<bar> < pow2 (binaryExponent x + 1)"
proof (cases "\<bar>x\<bar> \<ge> 1")
  case True
  let ?n = "\<lfloor>\<bar>x\<bar>\<rfloor>"
  have n: "0 < ?n" using True by linarith
  have k: "1 \<le> bitlen ?n" using n by (rule bitlen_pos)
  have e: "binaryExponent x = bitlen ?n - 1"
    using True by (simp add: binaryExponent_def)
  from bitlen_bounds [OF n] have lo: "2 ^ nat (bitlen ?n - 1) \<le> ?n"
    and hi: "?n < 2 ^ nat (bitlen ?n)" by simp_all
  have "real_of_int (2 ^ nat (bitlen ?n - 1)) \<le> real_of_int ?n"
    using lo by (simp only: of_int_le_iff)
  also have "\<dots> \<le> \<bar>x\<bar>" by simp
  finally have lower: "pow2 (binaryExponent x) \<le> \<bar>x\<bar>"
    using k by (simp add: e pow2_nonneg_exp)
  have "?n + 1 \<le> 2 ^ nat (bitlen ?n)" using hi by simp
  then have "real_of_int (?n + 1) \<le> real_of_int (2 ^ nat (bitlen ?n))"
    by (simp only: of_int_le_iff)
  then have up2: "real_of_int ?n + 1 \<le> 2 ^ nat (bitlen ?n)" by simp
  have up1: "\<bar>x\<bar> < real_of_int ?n + 1" by linarith
  have "\<bar>x\<bar> < 2 ^ nat (bitlen ?n)" using up1 up2 by linarith
  then have upper: "\<bar>x\<bar> < pow2 (binaryExponent x + 1)"
    using k by (simp add: e pow2_nonneg_exp)
  from lower upper show ?thesis ..
next
  case False
  let ?y = "1 / \<bar>x\<bar>"
  let ?m = "\<lceil>?y\<rceil> - 1"
  have xpos: "0 < \<bar>x\<bar>" using assms by simp
  have y: "1 < ?y" using False xpos by simp
  have m: "0 < ?m" using y by linarith
  have k: "1 \<le> bitlen ?m" using m by (rule bitlen_pos)
  have e: "binaryExponent x = - bitlen ?m"
    using False by (simp add: binaryExponent_def)
  from bitlen_bounds [OF m] have lo: "2 ^ nat (bitlen ?m - 1) \<le> ?m"
    and hi: "?m < 2 ^ nat (bitlen ?m)" by simp_all
  have my: "real_of_int ?m < ?y" "?y \<le> real_of_int ?m + 1"
    by linarith+
  have "?m + 1 \<le> 2 ^ nat (bitlen ?m)" using hi by simp
  then have "real_of_int (?m + 1) \<le> real_of_int (2 ^ nat (bitlen ?m))"
    by (simp only: of_int_le_iff)
  then have "real_of_int ?m + 1 \<le> 2 ^ nat (bitlen ?m)" by simp
  with my have "?y \<le> 2 ^ nat (bitlen ?m)" by linarith
  then have "1 / 2 ^ nat (bitlen ?m) \<le> \<bar>x\<bar>"
    using xpos by (simp add: field_simps)
  then have lower: "pow2 (binaryExponent x) \<le> \<bar>x\<bar>"
    using k by (simp add: e pow2_neg_exp)
  have "real_of_int (2 ^ nat (bitlen ?m - 1)) \<le> real_of_int ?m"
    using lo by (simp only: of_int_le_iff)
  then have "2 ^ nat (bitlen ?m - 1) \<le> real_of_int ?m" by simp
  with my have "2 ^ nat (bitlen ?m - 1) < ?y" by linarith
  then have "\<bar>x\<bar> < 1 / 2 ^ nat (bitlen ?m - 1)"
    using xpos by (simp add: field_simps)
  moreover have "nat (- (1 - bitlen ?m)) = nat (bitlen ?m - 1)" by simp
  ultimately have upper: "\<bar>x\<bar> < pow2 (binaryExponent x + 1)"
    using k by (simp add: e pow2_neg_exp)
  from lower upper show ?thesis ..
qed

lemma roundHalfEven_nearest: "\<bar>x - of_int (roundHalfEven x)\<bar> \<le> 1 / 2"
  unfolding roundHalfEven_def Let_def by (simp split: if_splits)

lemma foldl_rounded_rt:
  "foldl (\<lambda>sum t. rnd (sum + rt t)) a ts = foldl (\<lambda>s r. rnd (s + r)) a (map rt ts)"
  by (induction ts arbitrary: a) simp_all

lemma foldl_rounded_exact:
  "exactSums rnd a rs \<Longrightarrow> foldl (\<lambda>s r. rnd (s + r)) a rs = a + sum_list rs"
  by (induction rs arbitrary: a) simp_all

lemma realismPoint_rounded:
  "realismPoint rnd ts availableTime =
     (if availableTime > 0
      then rnd (foldl (\<lambda>s r. rnd (s + r)) 0 (map rt ts) / availableTime) else 0)"
  by (simp add: realismPoint_def foldl_rounded_rt)

lemma realismPoint_exact:
  "exactSums rnd 0 (map rt ts) \<Longrightarrow>
   realismPoint rnd ts availableTime =
     (if availableTime > 0 then rnd (sum_list (map rt ts) / availableTime) else 0)"
  by (simp add: realismPoint_rounded foldl_rounded_exact)

lemma fixedOffsetMidnight_midnight:
  "(fixedOffsetMidnight tz date + tz) mod msPerDay = 0
   \<and> fixedOffsetMidnight tz date \<le> date \<and> date < fixedOffsetMidnight tz date + msPerDay"
proof -
  have eq: "fixedOffsetMidnight tz date + tz = date + tz - (date + tz) mod msPerDay"
    by (simp add: fixedOffsetMidnight_def)
  have midnight: "(fixedOffsetMidnight tz date + tz) mod msPerDay = 0"
    unfolding eq by (simp add: minus_mod_eq_mult_div)
  have "0 \<le> (date + tz) mod msPerDay" "(date + tz) mod msPerDay < msPerDay"
    by (simp_all add: msPerDay_def)
  then have "fixedOffsetMidnight tz date \<le> date \<and> date < fixedOffsetMidnight tz date + msPerDay"
    unfolding fixedOffsetMidnight_def by linarith
  with midnight show ?thesis by simp
qed

text \<open>
  C4 (as amended): the realism point is 0 when the available time is not positive, and
  otherwise the double-precision quotient by the available time of the double-precision
  sum, added from left to right, of the required times of the tasks whose deadline lies
  from the local midnight of the date up to, and not including, the next local midnight.
  Where no addition rounds, the sum is the exact one; then a total of 6 hours with 8 hours
  available gives 0.75. No available time gives 0 whatever the tasks are.
\<close>

theorem realismPoint_of_day:
  "realismPoint rnd (getTasksForDate setHoursZero setDateNext tasks date) availableTime =
     (if availableTime > 0
      then rnd (foldl (\<lambda>s r. rnd (s + r)) 0
                  (map rt (filter (\<lambda>t. setHoursZero date \<le> idl t
                                       \<and> idl t < setDateNext (setHoursZero date)) tasks))
                / availableTime)
      else 0)
   \<and> getTodayTasks setHoursZero setDateNext tasks date
       = getTasksForDate setHoursZero setDateNext tasks date
   \<and> (exactSums rnd 0 (map rt todayTasks)
        \<longrightarrow> realismPoint rnd todayTasks availableTime =
              (if availableTime > 0 then rnd (sum_list (map rt todayTasks) / availableTime)
               else 0))
   \<and> (exactSums rnd 0 (map rt todayTasks) \<and> sum_list (map rt todayTasks) = 6
        \<and> rnd 0.75 = 0.75
        \<longrightarrow> realismPoint rnd todayTasks 8 = 0.75)
   \<and> realismPoint rnd todayTasks 0 = 0"
proof -
  have day: "realismPoint rnd (getTasksForDate setHoursZero setDateNext tasks date) availableTime =
     (if availableTime > 0
      then rnd (foldl (\<lambda>s r. rnd (s + r)) 0
                  (map rt (filter (\<lambda>t. setHoursZero date \<le> idl t
                                       \<and> idl t < setDateNext (setHoursZero date)) tasks))
                / availableTime)
      else 0)"
    by (simp add: realismPoint_rounded getTasksForDate_def Let_def)
  have today: "getTodayTasks setHoursZero setDateNext tasks date
       = getTasksForDate setHoursZero setDateNext tasks date"
    by (simp add: getTodayTasks_def)
  have exact: "exactSums rnd 0 (map rt todayTasks)
        \<longrightarrow> realismPoint rnd todayTasks availableTime =
              (if availableTime > 0 then rnd (sum_list (map rt todayTasks) / availableTime)
               else 0)"
    using realismPoint_exact [of rnd todayTasks availableTime] by blast
  have six: "exactSums rnd 0 (map rt todayTasks) \<and> sum_list (map rt todayTasks) = 6
        \<and> rnd 0.75 = 0.75
        \<longrightarrow> realismPoint rnd todayTasks 8 = 0.75"
  proof (intro impI, elim conjE)
    assume e: "exactSums rnd 0 (map rt todayTasks)"
      and total: "sum_list (map rt todayTasks) = 6"
      and q: "rnd 0.75 = 0.75"
    have "realismPoint rnd todayTasks 8 = rnd (sum_list (map rt todayTasks) / 8)"
      using realismPoint_exact [OF e, of 8] by simp
    also have "sum_list (map rt todayTasks) / 8 = 0.75"
      unfolding total by simp
    finally show "realismPoint rnd todayTasks 8 = 0.75"
      using q by simp
  qed
  have none: "realismPoint rnd todayTasks 0 = 0"
    by (simp add: realismPoint_def)
  from day today exact six none show ?thesis
    by (intro conjI)
qed

theorem realismPoint_of_day_witness:
  "getTasksForDate (fixedOffsetMidnight 3600000) fixedOffsetNextDay
      [mkTask 1 2.5 0 1, mkTask 2 3.5 82799999 3, mkTask 3 4 82800000 2,
       mkTask 4 1 (-3600001) 2] 1000
     = [mkTask 1 2.5 0 1, mkTask 2 3.5 82799999 3]
   \<and> exactSums roundDouble 0 (map rt [mkTask 1 2.5 0 1, mkTask 2 3.5 82799999 3])
   \<and> sum_list (map rt [mkTask 1 2.5 0 1, mkTask 2 3.5 82799999 3]) = 6
   \<and> realismPoint roundDouble [mkTask 1 2.5 0 1, mkTask 2 3.5 82799999 3] 8 = 0.75
   \<and> realismPoint roundDouble [mkTask 1 2.5 0 1, mkTask 2 3.5 82799999 3] 0 = 0"
proof -
  have day: "getTasksForDate (fixedOffsetMidnight 3600000) fixedOffsetNextDay
      [mkTask 1 2.5 0 1, mkTask 2 3.5 82799999 3, mkTask 3 4 82800000 2,
       mkTask 4 1 (-3600001) 2] 1000
     = [mkTask 1 2.5 0 1, mkTask 2 3.5 82799999 3]"
    by (simp add: getTasksForDate_def fixedOffsetMidnight_def fixedOffsetNextDay_def
        msPerDay_def mkTask_def Let_def)
  have exact: "exactSums roundDouble 0 (map rt [mkTask 1 2.5 0 1, mkTask 2 3.5 82799999 3])"
    by code_simp
  have total: "sum_list (map rt [mkTask 1 2.5 0 1, mkTask 2 3.5 82799999 3]) = 6"
    by (simp add: mkTask_def)
  have quotient: "roundDouble 0.75 = 0.75"
    by code_simp
  show ?thesis
    using realismPoint_of_day [of roundDouble "fixedOffsetMidnight 3600000" fixedOffsetNextDay
        "[mkTask 1 2.5 0 1, mkTask 2 3.5 82799999 3, mkTask 3 4 82800000 2,
          mkTask 4 1 (-3600001) 2]" 1000 8 "[mkTask 1 2.5 0 1, mkTask 2 3.5 82799999 3]"]
      realismPoint_of_day [of roundDouble "fixedOffsetMidnight 3600000" fixedOffsetNextDay
        "[mkTask 1 2.5 0 1, mkTask 2 3.5 82799999 3, mkTask 3 4 82800000 2,
          mkTask 4 1 (-3600001) 2]" 1000 0 "[mkTask 1 2.5 0 1, mkTask 2 3.5 82799999 3]"]
      day exact total quotient
    by simp
qed

text \<open>
  The claim as stated fails: for ten tasks of 0.1 hours due on the day and 1 hour
  available, the additions round, and the realism point is the double just below 1,
  while the sum of the required times divided by the available time is above 1.
\<close>

theorem realismPoint_rounds_below_quotient:
  "getTasksForDate (fixedOffsetMidnight 0) fixedOffsetNextDay tenTenths 1000 = tenTenths
   \<and> realismPoint roundDouble
        (getTasksForDate (fixedOffsetMidnight 0) fixedOffsetNextDay tenTenths 1000) 1
       = 9007199254740991 / 9007199254740992
   \<and> sum_list (map rt
        (getTasksForDate (fixedOffsetMidnight 0) fixedOffsetNextDay tenTenths 1000)) / 1
       = 36028797018963970 / 36028797018963968
   \<and> realismPoint roundDouble
        (getTasksForDate (fixedOffsetMidnight 0) fixedOffsetNextDay tenTenths 1000) 1
       \<noteq> sum_list (map rt
            (getTasksForDate (fixedOffsetMidnight 0) fixedOffsetNextDay tenTenths 1000)) / 1"
proof -
  have day: "getTasksForDate (fixedOffsetMidnight 0) fixedOffsetNextDay tenTenths 1000
      = tenTenths"
    by (simp add: getTasksForDate_def fixedOffsetMidnight_def fixedOffsetNextDay_def
        msPerDay_def tenTenths_def mkTask_def Let_def)
  have rp: "realismPoint roundDouble tenTenths 1 = 9007199254740991 / 9007199254740992"
    by code_simp
  have total: "sum_list (map rt tenTenths) / 1 = 36028797018963970 / 36028797018963968"
    by code_simp
  show ?thesis
    unfolding day rp total using day by simp
qed

section \<open>Classification of the realism point\<close>

text \<open>
  C5: the status is Safe exactly when RP < 0.8, Risky exactly when 0.8 <= RP < 1.0 and
  Overload exactly when RP >= 1.0; RP = 0.8 is Risky and RP = 1.0 is Overload.
\<close>

theorem getRPStatus_zones:
  "(label (getRPStatus rp) = ''Safe Zone'' \<longleftrightarrow> rp < 0.8)
   \<and> (label (getRPStatus rp) = ''Risky Zone'' \<longleftrightarrow> 0.8 \<le> rp \<and> rp < 1.0)
   \<and> (label (getRPStatus rp) = ''Overload'' \<longleftrightarrow> rp \<ge> 1.0)
   \<and> label (getRPStatus 0.8) = ''Risky Zone''
   \<and> label (getRPStatus 1.0) = ''Overload''"
  by (auto simp add: getRPStatus_def RP_LIMITS_SAFE_def RP_LIMITS_RISKY_def)

section \<open>Display order\<close>

lemma compareTasks_le_key:
  "compareTasks a b \<le> 0 \<longleftrightarrow> (il a, idl a) \<le> (il b, idl b)"
  by (auto simp add: compareTasks_def less_eq_prod_def)

lemma insertSorted_compareTasks:
  "insertSorted compareTasks x ys = insort_key (\<lambda>t. (il t, idl t)) x ys"
  by (induction ys) (simp_all add: compareTasks_le_key)

lemma sortedTasks_sort_key: "sortedTasks ts = sort_key (\<lambda>t. (il t, idl t)) ts"
  by (induction ts) (simp_all add: sortedTasks_def arraySort_def insertSorted_compareTasks)

text \<open>
  C8: the display order is a rearrangement of the input, ascending in importance level
  and, among tasks of one level, ascending in deadline; and it is stable: the tasks of
  any one importance level and deadline appear in the order they had in the input.
\<close>

theorem sortedTasks_sorted_stable:
  "mset (sortedTasks tasks) = mset tasks
   \<and> sorted_wrt (\<lambda>a b. il a < il b \<or> (il a = il b \<and> idl a \<le> idl b)) (sortedTasks tasks)
   \<and> (\<forall>k d. filter (\<lambda>t. il t = k \<and> idl t = d) (sortedTasks tasks)
            = filter (\<lambda>t. il t = k \<and> idl t = d) tasks)"
proof -
  let ?key = "\<lambda>t. (il t, idl t)"
  have "sorted (map ?key (sortedTasks tasks))"
    by (simp add: sortedTasks_sort_key)
  then have "sorted_wrt (\<lambda>a b. ?key a \<le> ?key b) (sortedTasks tasks)"
    by (simp add: sorted_map)
  then have ordered:
    "sorted_wrt (\<lambda>a b. il a < il b \<or> (il a = il b \<and> idl a \<le> idl b)) (sortedTasks tasks)"
    by (rule sorted_wrt_mono_rel [rotated]) (auto simp add: less_eq_prod_def)
  have stable: "filter (\<lambda>t. il t = k \<and> idl t = d) (sortedTasks tasks)
            = filter (\<lambda>t. il t = k \<and> idl t = d) tasks" for k d
    using sort_key_stable [of ?key "(k, d)" tasks] by (simp add: sortedTasks_sort_key)
  show ?thesis
    using ordered stable by (simp add: sortedTasks_sort_key)
qed

theorem sortedTasks_sorted_stable_witness:
  "sortedTasks [mkTask 1 1 5 2, mkTask 2 1 9 1, mkTask 3 1 5 2, mkTask 4 1 3 1, mkTask 5 1 4 2]
     = [mkTask 4 1 3 1, mkTask 2 1 9 1, mkTask 5 1 4 2, mkTask 1 1 5 2, mkTask 3 1 5 2]"
  using sortedTasks_sorted_stable [of "[mkTask 1 1 5 2, mkTask 2 1 9 1, mkTask 3 1 5 2,
      mkTask 4 1 3 1, mkTask 5 1 4 2]"]
  by (simp add: sortedTasks_def arraySort_def compareTasks_def mkTask_def)

section \<open>Observation buffer\<close>

lemma div_le_iff_int:
  fixes n k z :: int
  assumes "0 < k"
  shows "n div k \<le> z \<longleftrightarrow> n < (z + 1) * k"
proof -
  have "n div k \<le> z \<longleftrightarrow> real_of_int n / real_of_int k < real_of_int z + 1"
    using floor_le_iff [of "real_of_int n / real_of_int k" z]
    by (simp only: floor_divide_of_int_eq)
  also have "\<dots> \<longleftrightarrow> real_of_int n < real_of_int ((z + 1) * k)"
    using assms by (simp add: pos_divide_less_eq)
  also have "\<dots> \<longleftrightarrow> n < (z + 1) * k"
    by (rule of_int_less_iff)
  finally show ?thesis .
qed

lemma le_div_iff_int:
  fixes n k z :: int
  assumes "0 < k"
  shows "z \<le> n div k \<longleftrightarrow> z * k \<le> n"
proof -
  have "z \<le> n div k \<longleftrightarrow> real_of_int z \<le> real_of_int n / real_of_int k"
    using le_floor_iff [of z "real_of_int n / real_of_int k"]
    by (simp only: floor_divide_of_int_eq)
  also have "\<dots> \<longleftrightarrow> real_of_int (z * k) \<le> real_of_int n"
    using assms by (simp add: pos_le_divide_eq)
  also have "\<dots> \<longleftrightarrow> z * k \<le> n"
    by (rule of_int_le_iff)
  finally show ?thesis .
qed

text \<open>
  C6: daysRemaining is the buffer of 2 days minus the whole days elapsed since the
  observation was created (the floor of the elapsed time in days), and never negative:
  it is that difference while fewer than 3 days have elapsed, and 0 from then on.
\<close>

theorem daysRemaining_clamped:
  "daysRemaining obs now = max 0 (2 - (now - obs_createdAt obs) div msPerDay)
   \<and> daysRemaining obs now \<ge> 0
   \<and> OBSERVATION_BUFFER_DAYS = 2
   \<and> (daysRemaining obs now = 2 - (now - obs_createdAt obs) div msPerDay
        \<longleftrightarrow> now - obs_createdAt obs < 3 * msPerDay)
   \<and> (daysRemaining obs now = 0 \<longleftrightarrow> now - obs_createdAt obs \<ge> 2 * msPerDay)"
proof -
  let ?n = "now - obs_createdAt obs"
  have "\<lfloor>real_of_int ?n / real_of_int msPerDay\<rfloor> = ?n div msPerDay"
    by (rule floor_divide_of_int_eq)
  then have eq: "daysRemaining obs now = max 0 (2 - ?n div msPerDay)"
    by (simp only: daysRemaining_def OBSERVATION_BUFFER_DAYS_def)
  have pos: "(0::int) < msPerDay"
    by (simp add: msPerDay_def)
  have le2: "?n div msPerDay \<le> 2 \<longleftrightarrow> ?n < 3 * msPerDay"
    using div_le_iff_int [OF pos, of ?n 2] by simp
  have ge2: "2 \<le> ?n div msPerDay \<longleftrightarrow> ?n \<ge> 2 * msPerDay"
    using le_div_iff_int [OF pos, of 2 ?n] by simp
  show ?thesis
    unfolding eq using le2 ge2 by (auto simp add: max_def OBSERVATION_BUFFER_DAYS_def)
qed

theorem daysRemaining_clamped_witness:
  "daysRemaining (mkObs 1 1000) 1000 = 2
   \<and> daysRemaining (mkObs 1 1000) 86400999 = 2
   \<and> daysRemaining (mkObs 1 1000) 86401000 = 1
   \<and> daysRemaining (mkObs 1 1000) 172801000 = 0
   \<and> daysRemaining (mkObs 1 1000) 864001000 = 0"
proof -
  have known: "daysRemaining (mkObs 1 1000) 1000 = 2"
    "daysRemaining (mkObs 1 1000) 86400999 = 2"
    "daysRemaining (mkObs 1 1000) 172801000 = 0"
    "daysRemaining (mkObs 1 1000) 864001000 = 0"
    by (simp_all add: daysRemaining_def OBSERVATION_BUFFER_DAYS_def mkObs_def msPerDay_def)
  have "daysRemaining (mkObs 1 1000) 86401000 = max 0 (2 - (86401000 - 1000) div msPerDay)"
    using daysRemaining_clamped [of "mkObs 1 1000" 86401000] by (simp add: mkObs_def)
  then have "daysRemaining (mkObs 1 1000) 86401000 = 1"
    by (simp add: msPerDay_def)
  with known show ?thesis by simp
qed

section \<open>Converting an observation into a task\<close>






end
